theory Spec2Isabelle
  imports
    Main
    "HOL-Library.Multiset"
    "HOL-Library.AList"
    "HOL-Library.Char_ord"
    "HOL-Library.List_Lexorder"
begin

section \<open>Data model of package graph\<close>

text \<open>
  The error values of \<^verbatim>\<open>graph.go\<close> and \<^verbatim>\<open>paths.go\<close>. An error built with
  \<^verbatim>\<open>fmt.Errorf("...: %w", err)\<close> is \<open>Errorf w err\<close>, where \<open>w\<close> names the format string
  and carries the hash that the format prints.
\<close>

datatype 'k wrap =
    SourceVertex 'k
  | TargetVertex 'k
  | CheckForCycles
  | FailedToRemoveEdge 'k 'k
  | FailedToListVertices
  | FailedToListEdges
  | FailedToGetAdjacencyMap
  | CouldNotGetVertex 'k
  | FailedToGetPredecessorMap

datatype 'k error =
    ErrVertexNotFound
  | ErrVertexAlreadyExists
  | ErrEdgeNotFound
  | ErrEdgeAlreadyExists
  | ErrEdgeCreatesCycle
  | ErrVertexHasEdges
  | ErrTargetNotReachable
  | Errorf "'k wrap" "'k error"

text \<open>\<^verbatim>\<open>errors.Is(err, target)\<close>: \<open>err\<close> or an error it wraps is \<open>target\<close>.\<close>

fun errors_Is :: "'k error \<Rightarrow> 'k error \<Rightarrow> bool" where
  "errors_Is (Errorf w e) t = (Errorf w e = t \<or> errors_Is e t)"
| "errors_Is e t = (e = t)"

record 'a Edge =
  Source :: 'a
  Target :: 'a

record Traits =
  IsDirected :: bool
  IsAcyclic :: bool
  PreventCycles :: bool

text \<open>
  The functional options of \<^verbatim>\<open>traits.go\<close>. The option \<^verbatim>\<open>PreventCycles()\<close> shares its name
  with the field it sets and is \<open>PreventCycles_option\<close> here.
\<close>

definition Directed :: "Traits \<Rightarrow> Traits" where
  "Directed t = t\<lparr>IsDirected := True\<rparr>"

definition Acyclic :: "Traits \<Rightarrow> Traits" where
  "Acyclic t = t\<lparr>IsAcyclic := True\<rparr>"

definition PreventCycles_option :: "Traits \<Rightarrow> Traits" where
  "PreventCycles_option t = (Acyclic t)\<lparr>PreventCycles := True\<rparr>"

text \<open>
  A Go map is an association list with unique keys, in insertion order: \<open>map_of\<close> reads
  it, \<open>AList.update\<close> writes it. Go leaves the order in which \<^verbatim>\<open>range\<close> walks a map
  unspecified, so every function that ranges over a map takes an iteration order: any
  function that permutes the list of keys.
\<close>

type_synonym ('k, 'v) gomap = "('k \<times> 'v) list"

typedef 'k iteration = "{f :: 'k list \<Rightarrow> 'k list. \<forall>xs. mset (f xs) = mset xs}"
  by (rule exI [of _ "\<lambda>xs. xs"]) simp

setup_lifting type_definition_iteration

lift_definition rangeOver :: "'k iteration \<Rightarrow> 'k list \<Rightarrow> 'k list" is "\<lambda>f. f" .

lift_definition in_order :: "'k iteration" is "\<lambda>xs. xs"
  by simp

lift_definition reversed :: "'k iteration" is rev
  by simp

definition entries :: "('k, ('k, 'v) gomap) gomap \<Rightarrow> 'k \<Rightarrow> ('k, 'v) gomap" where
  \<comment> \<open>\<^verbatim>\<open>m[k]\<close> for a map of maps: a missing key reads as the nil map, which has no entry.\<close>
  "entries m k = (case map_of m k of None \<Rightarrow> [] | Some b \<Rightarrow> b)"

section \<open>The in-memory store\<close>

text \<open>
  Modelled from the spec: the in-memory implementation of \<^verbatim>\<open>Store[K, T]\<close>, which
  \<^verbatim>\<open>graph.New\<close> creates with \<^verbatim>\<open>newMemoryStore\<close> and whose file is not among the sources.
  Section 3 of the spec gives its state (the mapping hash to vertex and the mapping
  (source, target) to edge), section 4.1 its operations and their failures. An operation
  that changes the store returns the error, if any, and the store after the call.
\<close>

record ('k, 't) memoryStore =
  vertices :: "('k, 't) gomap"
  edges :: "('k \<times> 'k, 'k Edge) gomap"

definition newMemoryStore :: "('k, 't) memoryStore" where
  "newMemoryStore = \<lparr>vertices = [], edges = []\<rparr>"

definition store_AddVertex ::
  "('k, 't) memoryStore \<Rightarrow> 'k \<Rightarrow> 't \<Rightarrow> 'k error option \<times> ('k, 't) memoryStore" where
  "store_AddVertex s k v =
     (if map_of (vertices s) k \<noteq> None then (Some ErrVertexAlreadyExists, s)
      else (None, s\<lparr>vertices := AList.update k v (vertices s)\<rparr>))"

definition store_Vertex :: "('k, 't) memoryStore \<Rightarrow> 'k \<Rightarrow> 'k error + 't" where
  "store_Vertex s k =
     (case map_of (vertices s) k of None \<Rightarrow> Inl ErrVertexNotFound | Some v \<Rightarrow> Inr v)"

definition store_RemoveVertex ::
  "('k, 't) memoryStore \<Rightarrow> 'k \<Rightarrow> 'k error option \<times> ('k, 't) memoryStore" where
  "store_RemoveVertex s k =
     (if list_ex (\<lambda>(a, b). a = k \<or> b = k) (map fst (edges s)) then (Some ErrVertexHasEdges, s)
      else if map_of (vertices s) k = None then (Some ErrVertexNotFound, s)
      else (None, s\<lparr>vertices := AList.delete k (vertices s)\<rparr>))"

definition store_AddEdge ::
  "('k, 't) memoryStore \<Rightarrow> 'k \<Rightarrow> 'k \<Rightarrow> 'k Edge \<Rightarrow> 'k error option \<times> ('k, 't) memoryStore" where
  "store_AddEdge s source target edge =
     (if map_of (vertices s) source = None \<or> map_of (vertices s) target = None
      then (Some ErrVertexNotFound, s)
      else if map_of (edges s) (source, target) \<noteq> None then (Some ErrEdgeAlreadyExists, s)
      else (None, s\<lparr>edges := AList.update (source, target) edge (edges s)\<rparr>))"

definition store_Edge :: "('k, 't) memoryStore \<Rightarrow> 'k \<Rightarrow> 'k \<Rightarrow> 'k error + 'k Edge" where
  "store_Edge s source target =
     (case map_of (edges s) (source, target) of
        None \<Rightarrow> Inl ErrEdgeNotFound
      | Some e \<Rightarrow> Inr e)"

definition store_RemoveEdge ::
  "('k, 't) memoryStore \<Rightarrow> 'k \<Rightarrow> 'k \<Rightarrow> 'k error option \<times> ('k, 't) memoryStore" where
  "store_RemoveEdge s source target =
     (None, s\<lparr>edges := AList.delete (source, target) (edges s)\<rparr>)"

definition store_ListVertices :: "('k, 't) memoryStore \<Rightarrow> 'k error + 'k list" where
  "store_ListVertices s = Inr (map fst (vertices s))"

definition store_ListEdges :: "('k, 't) memoryStore \<Rightarrow> 'k error + 'k Edge list" where
  "store_ListEdges s = Inr (map snd (edges s))"

definition store_VertexCount :: "('k, 't) memoryStore \<Rightarrow> 'k error + nat" where
  "store_VertexCount s = Inr (length (vertices s))"

section \<open>The directed graph\<close>

text \<open>
  The struct \<^verbatim>\<open>directed[K, T]\<close> and its methods, which implement the interface
  \<^verbatim>\<open>Graph[K, T]\<close>. The methods are named as in the interface. A method that changes the
  graph returns the error, if any, and the graph after the call; a method that only reads
  returns its result.
\<close>

record ('k, 't) directed =
  hash :: "'t \<Rightarrow> 'k"
  traits :: Traits
  store :: "('k, 't) memoryStore"

definition newDirected ::
  "('t \<Rightarrow> 'k) \<Rightarrow> Traits \<Rightarrow> ('k, 't) memoryStore \<Rightarrow> ('k, 't) directed" where
  "newDirected h p s = \<lparr>hash = h, traits = p, store = s\<rparr>"

definition NewWithStore ::
  "('t \<Rightarrow> 'k) \<Rightarrow> ('k, 't) memoryStore \<Rightarrow> (Traits \<Rightarrow> Traits) list \<Rightarrow> ('k, 't) directed" where
  "NewWithStore h s options =
     newDirected h
       (foldl (\<lambda>p option. option p)
          \<lparr>IsDirected = False, IsAcyclic = False, PreventCycles = False\<rparr> options) s"

definition New :: "('t \<Rightarrow> 'k) \<Rightarrow> (Traits \<Rightarrow> Traits) list \<Rightarrow> ('k, 't) directed" where
  "New h options = NewWithStore h newMemoryStore options"

definition StringHash :: "string \<Rightarrow> string" where
  "StringHash v = v"

definition AddVertex :: "('k, 't) directed \<Rightarrow> 't \<Rightarrow> 'k error option \<times> ('k, 't) directed" where
  "AddVertex d v =
     (case store_AddVertex (store d) (hash d v) v of (err, s) \<Rightarrow> (err, d\<lparr>store := s\<rparr>))"

definition Vertex :: "('k, 't) directed \<Rightarrow> 'k \<Rightarrow> 'k error + 't" where
  "Vertex d k = store_Vertex (store d) k"

definition RemoveVertex :: "('k, 't) directed \<Rightarrow> 'k \<Rightarrow> 'k error option \<times> ('k, 't) directed" where
  "RemoveVertex d k =
     (case store_RemoveVertex (store d) k of (err, s) \<Rightarrow> (err, d\<lparr>store := s\<rparr>))"

definition Edge_of :: "('k, 't) directed \<Rightarrow> 'k \<Rightarrow> 'k \<Rightarrow> 'k error + 't Edge" where
  \<comment> \<open>The method \<^verbatim>\<open>Edge\<close>; the name is taken by the record type.\<close>
  "Edge_of d sourceHash targetHash =
     (case store_Edge (store d) sourceHash targetHash of
        Inl err \<Rightarrow> Inl err
      | Inr _ \<Rightarrow>
          (case store_Vertex (store d) sourceHash of
             Inl err \<Rightarrow> Inl err
           | Inr sourceVertex \<Rightarrow>
               (case store_Vertex (store d) targetHash of
                  Inl err \<Rightarrow> Inl err
                | Inr targetVertex \<Rightarrow> Inr \<lparr>Source = sourceVertex, Target = targetVertex\<rparr>)))"

definition Edges :: "('k, 't) directed \<Rightarrow> 'k error + 'k Edge list" where
  "Edges d = store_ListEdges (store d)"

definition RemoveEdge ::
  "('k, 't) directed \<Rightarrow> 'k \<Rightarrow> 'k \<Rightarrow> 'k error option \<times> ('k, 't) directed" where
  "RemoveEdge d source target =
     (case Edge_of d source target of
        Inl err \<Rightarrow> (Some err, d)
      | Inr _ \<Rightarrow>
          (case store_RemoveEdge (store d) source target of
             (Some err, s) \<Rightarrow> (Some (Errorf (FailedToRemoveEdge source target) err), d\<lparr>store := s\<rparr>)
           | (None, s) \<Rightarrow> (None, d\<lparr>store := s\<rparr>)))"

text \<open>
  \<^verbatim>\<open>AdjacencyMap\<close> gives every vertex an empty bucket and then runs
  \<^verbatim>\<open>m[edge.Source][edge.Target] = edge\<close> for every edge. When \<^verbatim>\<open>edge.Source\<close> has no bucket
  the inner map is nil and the assignment panics: the result is \<open>None\<close>.
\<close>

definition adjacency_insert ::
  "('k, ('k, 'k Edge) gomap) gomap option \<Rightarrow> 'k Edge \<Rightarrow> ('k, ('k, 'k Edge) gomap) gomap option" where
  "adjacency_insert mo edge =
     (case mo of
        None \<Rightarrow> None
      | Some m \<Rightarrow>
          (case map_of m (Source edge) of
             None \<Rightarrow> None
           | Some b \<Rightarrow> Some (AList.update (Source edge) (AList.update (Target edge) edge b) m)))"

definition AdjacencyMap ::
  "('k, 't) directed \<Rightarrow> ('k error + ('k, ('k, 'k Edge) gomap) gomap) option" where
  "AdjacencyMap d =
     (case store_ListVertices (store d) of
        Inl err \<Rightarrow> Some (Inl (Errorf FailedToListVertices err))
      | Inr vs \<Rightarrow>
          (case store_ListEdges (store d) of
             Inl err \<Rightarrow> Some (Inl (Errorf FailedToListEdges err))
           | Inr es \<Rightarrow>
               map_option Inr
                 (foldl adjacency_insert (Some (foldl (\<lambda>m v. AList.update v [] m) [] vs)) es)))"

text \<open>
  \<^verbatim>\<open>PredecessorMap\<close> creates the bucket of \<^verbatim>\<open>edge.Target\<close> when it is missing, so it never
  panics.
\<close>

definition predecessor_insert ::
  "('k, ('k, 'k Edge) gomap) gomap \<Rightarrow> 'k Edge \<Rightarrow> ('k, ('k, 'k Edge) gomap) gomap" where
  "predecessor_insert m edge =
     (let m' = (if map_of m (Target edge) = None then AList.update (Target edge) [] m else m)
      in AList.update (Target edge) (AList.update (Source edge) edge (entries m' (Target edge))) m')"

definition PredecessorMap ::
  "('k, 't) directed \<Rightarrow> 'k error + ('k, ('k, 'k Edge) gomap) gomap" where
  "PredecessorMap d =
     (case store_ListVertices (store d) of
        Inl err \<Rightarrow> Inl (Errorf FailedToListVertices err)
      | Inr vs \<Rightarrow>
          (case store_ListEdges (store d) of
             Inl err \<Rightarrow> Inl (Errorf FailedToListEdges err)
           | Inr es \<Rightarrow> Inr (foldl predecessor_insert (foldl (\<lambda>m v. AList.update v [] m) [] vs) es)))"

definition Order :: "('k, 't) directed \<Rightarrow> 'k error + nat" where
  "Order d = store_VertexCount (store d)"

definition Size :: "('k, 't) directed \<Rightarrow> ('k error + nat) option" where
  "Size d =
     (case AdjacencyMap d of
        None \<Rightarrow> None
      | Some (Inl err) \<Rightarrow> Some (Inl (Errorf FailedToGetAdjacencyMap err))
      | Some (Inr outEdges) \<Rightarrow> Some (Inr (foldl (\<lambda>size b. size + length (snd b)) 0 outEdges)))"

section \<open>Cycle detection\<close>

text \<open>
  The loop of \<^verbatim>\<open>CreatesCycle\<close> in \<^verbatim>\<open>paths.go\<close>. The head of \<open>stack\<close> is the top of the Go
  stack, its last element; \<^verbatim>\<open>append\<close> in the order of the range over the bucket leaves the
  keys on the stack in reverse.
\<close>

definition all_keys :: "('k, ('k, 'v) gomap) gomap \<Rightarrow> 'k set" where
  "all_keys m = (\<Union>b \<in> set (map snd m). set (map fst b))"

function CreatesCycle_loop ::
  "'k iteration \<Rightarrow> ('k, ('k, 'k Edge) gomap) gomap \<Rightarrow> 'k \<Rightarrow> 'k list \<Rightarrow> 'k list \<Rightarrow> bool" where
  "CreatesCycle_loop it predecessorMap target [] visited = False"
| "CreatesCycle_loop it predecessorMap target (currentHash # stack) visited =
     (if currentHash \<notin> set visited then
        (if currentHash = target then True
         else CreatesCycle_loop it predecessorMap target
                (rev (rangeOver it (map fst (entries predecessorMap currentHash))) @ stack)
                (currentHash # visited))
      else CreatesCycle_loop it predecessorMap target stack visited)"
  by pat_completeness auto

lemma mset_rangeOver: "mset (rangeOver it xs) = mset xs"
  by transfer simp

lemma set_rangeOver: "set (rangeOver it xs) = set xs"
  using mset_rangeOver [of it xs] by (metis set_mset_mset)

lemma finite_all_keys: "finite (all_keys m)"
  by (simp add: all_keys_def)

lemma entries_all_keys: "set (map fst (entries m k)) \<subseteq> all_keys m"
proof (cases "map_of m k")
  case None
  then show ?thesis by (simp add: entries_def)
next
  case (Some b)
  then have "(k, b) \<in> set m" by (rule map_of_SomeD)
  then have "set (map fst b) \<subseteq> all_keys m"
    unfolding all_keys_def by force
  with Some show ?thesis by (simp add: entries_def)
qed

termination CreatesCycle_loop
proof (relation "measures [\<lambda>(it, m, t, stack, visited). card ((all_keys m \<union> set stack) - set visited),
                           \<lambda>(it, m, t, stack, visited). length stack]", goal_cases)
  case 1
  show ?case by simp
next
  case (2 it m t c stack visited)
  have "(all_keys m \<union> set (rev (rangeOver it (map fst (entries m c))) @ stack)) - set (c # visited)
        \<subset> (all_keys m \<union> set (c # stack)) - set visited"
    using 2 entries_all_keys [of m c] by (auto simp: set_rangeOver)
  then have "card ((all_keys m \<union> set (rev (rangeOver it (map fst (entries m c))) @ stack)) - set (c # visited))
        < card ((all_keys m \<union> set (c # stack)) - set visited)"
    by (intro psubset_card_mono) (simp_all add: finite_all_keys)
  then show ?case by simp
next
  case (3 it m t c stack visited)
  have "card ((all_keys m \<union> set stack) - set visited) \<le> card ((all_keys m \<union> set (c # stack)) - set visited)"
    by (intro card_mono) (auto simp: finite_all_keys)
  then show ?case by auto
qed

definition CreatesCycle ::
  "'k iteration \<Rightarrow> ('k, 't) directed \<Rightarrow> 'k \<Rightarrow> 'k \<Rightarrow> 'k error + bool" where
  "CreatesCycle it g source target =
     (case Vertex g source of
        Inl err \<Rightarrow> Inl (Errorf (CouldNotGetVertex source) err)
      | Inr _ \<Rightarrow>
          (case Vertex g target of
             Inl err \<Rightarrow> Inl (Errorf (CouldNotGetVertex target) err)
           | Inr _ \<Rightarrow>
               if source = target then Inr True
               else
                 (case PredecessorMap g of
                    Inl err \<Rightarrow> Inl (Errorf FailedToGetPredecessorMap err)
                  | Inr predecessorMap \<Rightarrow>
                      Inr (CreatesCycle_loop it predecessorMap target [source] []))))"

text \<open>
  The method \<^verbatim>\<open>createsCycle\<close> of \<^verbatim>\<open>directed\<close> asks the store for a \<^verbatim>\<open>CreatesCycle\<close> method of
  its own and otherwise takes the slow path. Section 4.1 of the spec lists no such
  operation of the store, and section 4.3 requires the same result of it if there is one,
  so the slow path is the model.
\<close>

definition createsCycle ::
  "'k iteration \<Rightarrow> ('k, 't) directed \<Rightarrow> 'k \<Rightarrow> 'k \<Rightarrow> 'k error + bool" where
  "createsCycle it d source target = CreatesCycle it d source target"

definition addEdge ::
  "('k, 't) directed \<Rightarrow> 'k \<Rightarrow> 'k \<Rightarrow> 'k Edge \<Rightarrow> 'k error option \<times> ('k, 't) directed" where
  "addEdge d sourceHash targetHash edge =
     (case store_AddEdge (store d) sourceHash targetHash edge of (err, s) \<Rightarrow> (err, d\<lparr>store := s\<rparr>))"

definition AddEdge ::
  "'k iteration \<Rightarrow> ('k, 't) directed \<Rightarrow> 'k \<Rightarrow> 'k \<Rightarrow> 'k error option \<times> ('k, 't) directed" where
  "AddEdge it d sourceHash targetHash =
     (case store_Vertex (store d) sourceHash of
        Inl err \<Rightarrow> (Some (Errorf (SourceVertex sourceHash) err), d)
      | Inr _ \<Rightarrow>
          (case store_Vertex (store d) targetHash of
             Inl err \<Rightarrow> (Some (Errorf (TargetVertex targetHash) err), d)
           | Inr _ \<Rightarrow>
               if \<not> (case Edge_of d sourceHash targetHash of
                        Inl err \<Rightarrow> errors_Is err ErrEdgeNotFound
                      | Inr _ \<Rightarrow> False)
               then (Some ErrEdgeAlreadyExists, d)
               else
                 (case (if PreventCycles (traits d) then
                          (case createsCycle it d sourceHash targetHash of
                             Inl err \<Rightarrow> Some (Errorf CheckForCycles err)
                           | Inr creates \<Rightarrow>
                               if creates then Some ErrEdgeCreatesCycle else None)
                        else None) of
                    Some err \<Rightarrow> (Some err, d)
                  | None \<Rightarrow>
                      addEdge d sourceHash targetHash
                        \<lparr>Source = sourceHash, Target = targetHash\<rparr>)))"

section \<open>Depth-first traversal\<close>

text \<open>
  Modelled from the spec: \<^verbatim>\<open>graph.DFS\<close>, which \<^verbatim>\<open>calculate\<close> calls and whose file is not
  among the sources. Section 4.4 of the spec: an explicit stack seeded with the start
  hash; a popped hash that is unvisited is marked visited and the visitor is called on
  the value of its vertex; the traversal ends when the visitor returns stop, and
  otherwise pushes the keys of the adjacency bucket in the order of its iteration. The
  visitor is a closure that changes its captured variables: it takes their state and
  returns its verdict with the new state. The vertex value comes from \<^verbatim>\<open>Vertex\<close>, and
  the adjacency buckets from \<^verbatim>\<open>AdjacencyMap\<close>; an error of either is the error of the
  traversal, and a panic of \<^verbatim>\<open>AdjacencyMap\<close> is \<open>None\<close>.
\<close>

function DFS_loop ::
  "'k iteration \<Rightarrow> ('k, ('k, 'k Edge) gomap) gomap \<Rightarrow> ('k, 't) directed \<Rightarrow>
   ('t \<Rightarrow> 's \<Rightarrow> bool \<times> 's) \<Rightarrow> 'k list \<Rightarrow> 'k list \<Rightarrow> 's \<Rightarrow> 'k error option \<times> 's" where
  "DFS_loop it adjacencyMap g visit [] visited acc = (None, acc)"
| "DFS_loop it adjacencyMap g visit (currentHash # stack) visited acc =
     (if currentHash \<notin> set visited then
        (case Vertex g currentHash of
           Inl err \<Rightarrow> (Some err, acc)
         | Inr currentVertex \<Rightarrow>
             (case visit currentVertex acc of
                (True, acc') \<Rightarrow> (None, acc')
              | (False, acc') \<Rightarrow>
                  DFS_loop it adjacencyMap g visit
                    (rev (rangeOver it (map fst (entries adjacencyMap currentHash))) @ stack)
                    (currentHash # visited) acc'))
      else DFS_loop it adjacencyMap g visit stack visited acc)"
  by pat_completeness auto
termination
proof (relation "measures [\<lambda>(it, m, g, f, stack, visited, acc). card ((all_keys m \<union> set stack) - set visited),
                           \<lambda>(it, m, g, f, stack, visited, acc). length stack]", goal_cases)
  case 1
  show ?case by simp
next
  case (2 it m g f c stack visited acc)
  have "(all_keys m \<union> set (rev (rangeOver it (map fst (entries m c))) @ stack)) - set (c # visited)
        \<subset> (all_keys m \<union> set (c # stack)) - set visited"
    using 2(1) entries_all_keys [of m c] by (auto simp: set_rangeOver)
  then have "card ((all_keys m \<union> set (rev (rangeOver it (map fst (entries m c))) @ stack)) - set (c # visited))
        < card ((all_keys m \<union> set (c # stack)) - set visited)"
    by (intro psubset_card_mono) (simp_all add: finite_all_keys)
  then show ?case by simp
next
  case (3 it m g f c stack visited acc)
  have "card ((all_keys m \<union> set stack) - set visited) \<le> card ((all_keys m \<union> set (c # stack)) - set visited)"
    by (intro card_mono) (auto simp: finite_all_keys)
  then show ?case by auto
qed

definition DFS ::
  "'k iteration \<Rightarrow> ('k, 't) directed \<Rightarrow> 'k \<Rightarrow> ('t \<Rightarrow> 's \<Rightarrow> bool \<times> 's) \<Rightarrow> 's \<Rightarrow>
   ('k error option \<times> 's) option" where
  "DFS it g start visit acc =
     (case AdjacencyMap g of
        None \<Rightarrow> None
      | Some (Inl err) \<Rightarrow> Some (Some err, acc)
      | Some (Inr adjacencyMap) \<Rightarrow> Some (DFS_loop it adjacencyMap g visit [start] [] acc))"

section \<open>The path synthesizer\<close>

text \<open>
  \<^verbatim>\<open>SearchController.calculate\<close>. A segment is a Go slice of strings of any length, of
  which \<^verbatim>\<open>calculate\<close> reads \<^verbatim>\<open>el[0]\<close> and \<^verbatim>\<open>el[1]\<close>; a read past the end panics, which
  is \<open>None\<close>. Go compares strings byte by byte, as the order on \<open>string\<close> does.

  The comparison function handed to \<^verbatim>\<open>sort.Slice\<close>:
\<close>

definition less_segments :: "string list \<Rightarrow> string list \<Rightarrow> bool option" where
  "less_segments a b =
     (if length a < 1 \<or> length b < 1 then None
      else if a ! 0 < b ! 0 then Some True
      else if a ! 0 > b ! 0 then Some False
      else if length a < 2 \<or> length b < 2 then None
      else Some (a ! 1 < b ! 1))"

text \<open>
  \<^verbatim>\<open>sort.Slice\<close> of the Go library runs an insertion sort on a slice of at most 12
  elements: for \<open>i\<close> from 1 up, the element at \<open>i\<close> is swapped towards the front as long
  as it is less than its left neighbour. \<open>sift x front\<close> is that inner loop, with the
  sorted front of the slice given back to front, so that its head is the left neighbour.
  On a longer slice the library runs a quicksort variant instead; when no comparison
  panics it ends with a sorted permutation as well, which can differ from the one here
  only in the order of segments that start with the same two strings.
\<close>

fun sift :: "string list \<Rightarrow> string list list \<Rightarrow> string list list option" where
  "sift x [] = Some [x]"
| "sift x (y # front) =
     (case less_segments x y of
        None \<Rightarrow> None
      | Some True \<Rightarrow> map_option ((#) y) (sift x front)
      | Some False \<Rightarrow> Some (x # y # front))"

fun insertionSort :: "string list list \<Rightarrow> string list list \<Rightarrow> string list list option" where
  "insertionSort [] front = Some (rev front)"
| "insertionSort (x # xs) front =
     (case sift x front of
        None \<Rightarrow> None
      | Some front' \<Rightarrow> insertionSort xs front')"

definition sort_Slice :: "string list list \<Rightarrow> string list list option" where
  "sort_Slice segments = insertionSort segments []"

text \<open>
  The state of the \<^verbatim>\<open>context.Context\<close> that the caller passes: what \<^verbatim>\<open>ctx.Err()\<close> would
  return.
\<close>

datatype Context = Active | Canceled | DeadlineExceeded

text \<open>The body of the first loop of \<^verbatim>\<open>calculate\<close>, for one segment.\<close>

definition calculate_insert ::
  "string iteration \<Rightarrow> (string, string) directed \<Rightarrow> string list \<Rightarrow>
   (string error + (string, string) directed) option" where
  "calculate_insert it g el =
     (if length el < 2 then None
      else
        let source = el ! 0; target = el ! 1 in
        (case (case Vertex g source of Inl _ \<Rightarrow> AddVertex g source | Inr _ \<Rightarrow> (None, g)) of
           (Some err, _) \<Rightarrow> Some (Inl err)
         | (None, g1) \<Rightarrow>
             (case (case Vertex g1 target of Inl _ \<Rightarrow> AddVertex g1 target | Inr _ \<Rightarrow> (None, g1)) of
                (Some err, _) \<Rightarrow> Some (Inl err)
              | (None, g2) \<Rightarrow>
                  (case (case Edge_of g2 source target of
                           Inl _ \<Rightarrow> AddEdge it g2 source target
                         | Inr _ \<Rightarrow> (None, g2)) of
                     (Some err, _) \<Rightarrow> Some (Inl err)
                   | (None, g3) \<Rightarrow> Some (Inr g3)))))"

fun calculate_build ::
  "string iteration \<Rightarrow> (string, string) directed \<Rightarrow> string list list \<Rightarrow>
   (string error + (string, string) directed) option" where
  "calculate_build it g [] = Some (Inr g)"
| "calculate_build it g (el # segments) =
     (case calculate_insert it g el of
        None \<Rightarrow> None
      | Some (Inl err) \<Rightarrow> Some (Inl err)
      | Some (Inr g') \<Rightarrow> calculate_build it g' segments)"

text \<open>
  The second loop of \<^verbatim>\<open>calculate\<close>. The traversal is a parameter, so that the loop is
  stated for whatever \<^verbatim>\<open>graph.DFS\<close> returns. The visitor appends the value to \<^verbatim>\<open>innerDfs\<close>
  and never stops the traversal. An error of the traversal is printed with \<^verbatim>\<open>println\<close>:
  \<open>printed\<close> collects what is printed.
\<close>

type_synonym traversal =
  "(string, string) directed \<Rightarrow> string \<Rightarrow> (string \<Rightarrow> string list \<Rightarrow> bool \<times> string list) \<Rightarrow>
   string list \<Rightarrow> (string error option \<times> string list) option"

fun calculate_search ::
  "traversal \<Rightarrow> (string, string) directed \<Rightarrow> string list list \<Rightarrow> string list \<Rightarrow>
   string error list \<Rightarrow> (string list \<times> string error list) option" where
  "calculate_search dfs_run g [] dfs printed = Some (dfs, printed)"
| "calculate_search dfs_run g (el # segments) dfs printed =
     (if length el < 1 then None
      else
        (case dfs_run g (el ! 0) (\<lambda>value innerDfs. (False, innerDfs @ [value])) [] of
           None \<Rightarrow> None
         | Some (err, innerDfs) \<Rightarrow>
             calculate_search dfs_run g segments
               (if length dfs < length innerDfs then innerDfs else dfs)
               (case err of None \<Rightarrow> printed | Some e \<Rightarrow> printed @ [e])))"

text \<open>
  What a call of \<^verbatim>\<open>calculate\<close> leaves behind when it returns: the caller's slice, which
  \<^verbatim>\<open>sort.Slice\<close> has sorted in place, the errors printed, and the pair of results, an
  error or the path.
\<close>

record calculated =
  segments_after :: "string list list"
  printed :: "string error list"
  returned :: "string error + string list"

definition calculate_with ::
  "traversal \<Rightarrow> Context \<Rightarrow> string iteration \<Rightarrow> string list list \<Rightarrow> calculated option" where
  "calculate_with dfs_run ctx it segments =
     (case sort_Slice segments of
        None \<Rightarrow> None
      | Some sorted_segments \<Rightarrow>
          (case calculate_build it (New StringHash [Directed, PreventCycles_option]) sorted_segments of
             None \<Rightarrow> None
           | Some (Inl err) \<Rightarrow>
               Some \<lparr>segments_after = sorted_segments, printed = [], returned = Inl err\<rparr>
           | Some (Inr g) \<Rightarrow>
               (case calculate_search dfs_run g sorted_segments [] [] of
                  None \<Rightarrow> None
                | Some (dfs, out) \<Rightarrow>
                    Some \<lparr>segments_after = sorted_segments, printed = out, returned = Inr dfs\<rparr>)))"

definition calculate :: "Context \<Rightarrow> string iteration \<Rightarrow> string list list \<Rightarrow> calculated option" where
  "calculate ctx it segments = calculate_with (DFS it) ctx it segments"

section \<open>Vertices and arcs of a graph\<close>

text \<open>
  The vocabulary in which the properties of the graph are stated: the hashes that name a
  vertex of the store, and the pairs of hashes that the edges of the store join.
\<close>

definition has_vertex :: "('k, 't) directed \<Rightarrow> 'k \<Rightarrow> bool" where
  "has_vertex g k = (map_of (vertices (store g)) k \<noteq> None)"




section \<open>Results on given inputs\<close>

lemma rangeOver_Nil [simp]: "rangeOver it [] = []"
  using mset_rangeOver [of it "[]"] by simp

lemma rangeOver_single [simp]: "rangeOver it [x] = [x]"
  using mset_rangeOver [of it "[x]"] by (simp add: mset_single_iff_right)

lemma rangeOver_in_order [simp]: "rangeOver in_order xs = xs"
  by transfer simp

lemma rangeOver_reversed [simp]: "rangeOver reversed xs = rev xs"
  by transfer simp

lemmas calculate_defs =
  calculate_def calculate_with_def sort_Slice_def less_segments_def New_def NewWithStore_def
  newDirected_def newMemoryStore_def Directed_def PreventCycles_option_def Acyclic_def
  calculate_insert_def Vertex_def AddVertex_def store_Vertex_def store_AddVertex_def
  StringHash_def Edge_of_def store_Edge_def AddEdge_def createsCycle_def CreatesCycle_def
  PredecessorMap_def store_ListVertices_def store_ListEdges_def predecessor_insert_def
  entries_def addEdge_def store_AddEdge_def DFS_def AdjacencyMap_def adjacency_insert_def
  Let_def

text \<open>
  Claim C4. On the segments IND-EWR, SFO-ATL, GSO-IND, ATL-GSO, \<^verbatim>\<open>calculate\<close> returns the
  path SFO, ATL, GSO, IND, EWR and no error, whatever the context and whatever the order
  in which the maps are iterated.
\<close>

theorem calculate_multiple_routes:
  "calculate ctx it
     [[''IND'', ''EWR''], [''SFO'', ''ATL''], [''GSO'', ''IND''], [''ATL'', ''GSO'']] =
   Some \<lparr>segments_after =
           [[''ATL'', ''GSO''], [''GSO'', ''IND''], [''IND'', ''EWR''], [''SFO'', ''ATL'']],
         printed = [],
         returned = Inr [''SFO'', ''ATL'', ''GSO'', ''IND'', ''EWR'']\<rparr>"
  by (simp add: calculate_defs)

text \<open>
  Claim C8. On the two disconnected segments IND-FDF and DAD-EED, \<^verbatim>\<open>calculate\<close> returns
  the chain DAD, EED alone, whatever the context and whatever the order in which the
  maps are iterated: the sort puts DAD-EED first, and the later chain of the same length
  does not replace it.
\<close>

theorem calculate_disconnected:
  "calculate ctx it [[''IND'', ''FDF''], [''DAD'', ''EED'']] =
   Some \<lparr>segments_after = [[''DAD'', ''EED''], [''IND'', ''FDF'']],
         printed = [],
         returned = Inr [''DAD'', ''EED'']\<rparr>"
  by (simp add: calculate_defs)

section \<open>The sort of the caller's slice\<close>

lemma less_segments_trans:
  "less_segments c b = Some False \<Longrightarrow> less_segments b a = Some False \<Longrightarrow>
   less_segments c a = Some False"
  unfolding less_segments_def by (auto split: if_splits)

lemma less_segments_asym:
  "less_segments x y = Some True \<Longrightarrow> less_segments y x = Some False"
  unfolding less_segments_def by (auto split: if_splits)

lemma sift_sorted:
  "sift x front = Some front' \<Longrightarrow>
   sorted_wrt (\<lambda>a b. less_segments a b = Some False) front \<Longrightarrow>
   sorted_wrt (\<lambda>a b. less_segments a b = Some False) front' \<and> mset front' = add_mset x (mset front)"
proof (induction front arbitrary: front')
  case Nil
  then show ?case by auto
next
  case (Cons y front)
  show ?case
  proof (cases "less_segments x y")
    case None
    with Cons.prems show ?thesis by simp
  next
    case (Some b)
    show ?thesis
    proof (cases b)
      case True
      with Some Cons.prems obtain f where f: "sift x front = Some f" "front' = y # f"
        by auto
      from Cons.IH [OF f(1)] Cons.prems(2)
      have ih: "sorted_wrt (\<lambda>a b. less_segments a b = Some False) f" "mset f = add_mset x (mset front)"
        by auto
      have "less_segments y x = Some False"
        using Some True by (simp add: less_segments_asym)
      moreover have "set f = insert x (set front)"
        using ih(2) by (metis set_mset_add_mset_insert set_mset_mset)
      ultimately show ?thesis
        using ih Cons.prems(2) f(2) by auto
    next
      case False
      with Some Cons.prems have f: "front' = x # y # front" by auto
      have xy: "less_segments x y = Some False" using Some False by simp
      have "less_segments x z = Some False" if "z \<in> set front" for z
        using that Cons.prems(2) less_segments_trans [OF xy] by auto
      then show ?thesis using f xy Cons.prems(2) by auto
    qed
  qed
qed

lemma insertionSort_sorted:
  "insertionSort xs front = Some ys \<Longrightarrow>
   sorted_wrt (\<lambda>a b. less_segments a b = Some False) front \<Longrightarrow>
   sorted_wrt (\<lambda>a b. less_segments b a = Some False) ys \<and> mset ys = mset xs + mset front"
proof (induction xs arbitrary: front)
  case Nil
  then show ?case by (auto simp: sorted_wrt_rev)
next
  case (Cons x xs)
  from Cons.prems(1) obtain f where f: "sift x front = Some f" "insertionSort xs f = Some ys"
    by (auto split: option.splits)
  from sift_sorted [OF f(1) Cons.prems(2)] Cons.IH [OF f(2)] show ?case by simp
qed

lemma sort_Slice_sorted:
  "sort_Slice segments = Some ys \<Longrightarrow>
   sorted_wrt (\<lambda>a b. less_segments b a = Some False) ys \<and> mset ys = mset segments"
  using insertionSort_sorted [of segments "[]" ys] by (simp add: sort_Slice_def)

lemma calculate_with_sorted:
  "calculate_with dfs_run ctx it segments = Some r \<Longrightarrow> sort_Slice segments = Some (segments_after r)"
  by (auto simp: calculate_with_def split: option.splits sum.splits)

text \<open>
  Claim C10. \<^verbatim>\<open>calculate\<close> sorts the slice of its caller in place: whenever a call
  returns, with a path or with an error, the slice holds the segments it held before,
  in an order in which no segment is less than an earlier one under the comparison of
  \<^verbatim>\<open>calculate\<close>, which compares the sources and then the targets.
\<close>

theorem calculate_sorts_in_place:
  assumes "calculate ctx it segments = Some r"
  shows "mset (segments_after r) = mset segments \<and>
         sorted_wrt (\<lambda>a b. less_segments b a = Some False) (segments_after r)"
  using sort_Slice_sorted [OF calculate_with_sorted] assms by (simp add: calculate_def)

theorem calculate_sorts_in_place_witness:
  "calculate Active in_order [[''SFO'', ''SFO''], [''IND'', ''EWR'']] =
     Some \<lparr>segments_after = [[''IND'', ''EWR''], [''SFO'', ''SFO'']], printed = [],
           returned = Inl ErrEdgeCreatesCycle\<rparr> \<and>
   mset [[''IND'', ''EWR''], [''SFO'', ''SFO'']] = mset [[''SFO'', ''SFO''], [''IND'', ''EWR'']] \<and>
   sorted_wrt (\<lambda>a b. less_segments b a = Some False) [[''IND'', ''EWR''], [''SFO'', ''SFO'']]"
proof -
  have c: "calculate Active in_order [[''SFO'', ''SFO''], [''IND'', ''EWR'']] =
     Some \<lparr>segments_after = [[''IND'', ''EWR''], [''SFO'', ''SFO'']], printed = [],
           returned = Inl ErrEdgeCreatesCycle\<rparr>"
    by (simp add: calculate_defs)
  from calculate_sorts_in_place [OF c] c show ?thesis by simp
qed

section \<open>The context\<close>

text \<open>
  Claim C5, as stated, fails: under a context whose deadline has expired \<^verbatim>\<open>calculate\<close>
  returns the path of its segments and no error.
\<close>

theorem calculate_ignores_deadline:
  "calculate DeadlineExceeded in_order [[''SFO'', ''EWR'']] =
   Some \<lparr>segments_after = [[''SFO'', ''EWR'']], printed = [],
         returned = Inr [''SFO'', ''EWR'']\<rparr>"
  by (simp add: calculate_defs)

text \<open>
  Claim C5, amended. \<^verbatim>\<open>calculate\<close> takes the context and never consults it: a call
  leaves the same slice, prints the same and returns the same under every state of the
  context.
\<close>

theorem calculate_context_unused:
  "calculate ctx it segments = calculate ctx' it segments"
  by (simp add: calculate_def calculate_with_def)

section \<open>The errors of the synthesis\<close>



lemma Vertex_not_has_vertex: "(\<exists>e. Vertex g k = Inl e) = (\<not> has_vertex g k)"
  by (simp add: Vertex_def store_Vertex_def has_vertex_def split: option.splits)




















end
